theory Spec2Isabelle
  imports Main "HOL-Library.Word"
begin

unbundle bit_operations_syntax

section \<open>JavaScript values\<close>

text \<open>
  The server (\<^verbatim>\<open>src/server/server.js\<close>) is an Express application with five
  GET handlers and one helper, \<^verbatim>\<open>getSession\<close>. The handlers move JavaScript
  values between the browser's request, the session and the Salesforce client, and
  inspect them in four ways only: truthiness (\<^verbatim>\<open>if (error)\<close>,
  \<^verbatim>\<open>!request.query.q\<close>), \<^verbatim>\<open>typeof x === 'undefined'\<close>, reading a named
  property, and \<^verbatim>\<open>encodeURI\<close>. The model has exactly these operations.

  A JavaScript string is a sequence of UTF-16 code units.
\<close>

type_synonym jsstring = "16 word list"

definition js :: "string \<Rightarrow> jsstring" where
  "js s = map (\<lambda>c. of_char c) s"

text \<open>
  Values that come from the upstream libraries (errors, payloads, the stored
  credential). A number is kept as its IEEE 754 binary64 bit pattern, which is all that
  truthiness needs.
\<close>

datatype jsval =
    JUndefined
  | JNull
  | JBool bool
  | JNum "64 word"
  | JStr jsstring
  | JArr "jsval list"
  | JObj "(jsstring \<times> jsval) list"

datatype js_error = TypeError | URIError

definition is_zero :: "64 word \<Rightarrow> bool" where
  "is_zero w = (w AND 0x7FFFFFFFFFFFFFFF = 0)"

definition is_nan :: "64 word \<Rightarrow> bool" where
  "is_nan w = (w AND 0x7FF0000000000000 = 0x7FF0000000000000 \<and> w AND 0x000FFFFFFFFFFFFF \<noteq> 0)"

text \<open>ToBoolean: what \<^verbatim>\<open>if (error)\<close> tests.\<close>

fun truthy :: "jsval \<Rightarrow> bool" where
  "truthy JUndefined = False"
| "truthy JNull = False"
| "truthy (JBool b) = b"
| "truthy (JNum w) = (\<not> is_zero w \<and> \<not> is_nan w)"
| "truthy (JStr s) = (s \<noteq> [])"
| "truthy (JArr xs) = True"
| "truthy (JObj kvs) = True"

text \<open>
  Reading a property that is not a built-in one (the handlers read
  \<^verbatim>\<open>access_token\<close> and \<^verbatim>\<open>body\<close>): undefined and null throw a TypeError, an
  object gives the stored value or undefined, every other value gives undefined.
\<close>

fun get_prop :: "jsval \<Rightarrow> jsstring \<Rightarrow> js_error + jsval" where
  "get_prop JUndefined k = Inl TypeError"
| "get_prop JNull k = Inl TypeError"
| "get_prop (JObj kvs) k = Inr (case map_of kvs k of None \<Rightarrow> JUndefined | Some v \<Rightarrow> v)"
| "get_prop v k = Inr JUndefined"

text \<open>
  Values of \<^verbatim>\<open>request.query\<close>, as Express's query parser builds them: a string, an
  array (a repeated parameter) or a nested object. A parameter that is absent reads as
  undefined: \<open>None\<close> below.
\<close>

datatype qval =
    QStr jsstring
  | QArr "qval list"
  | QObj "(jsstring \<times> qval) list"

fun falsy_param :: "qval option \<Rightarrow> bool" where
  "falsy_param None = True"
| "falsy_param (Some (QStr s)) = (s = [])"
| "falsy_param (Some (QArr xs)) = False"
| "falsy_param (Some (QObj kvs)) = False"

fun join :: "jsstring \<Rightarrow> jsstring list \<Rightarrow> jsstring" where
  "join sep [] = []"
| "join sep [s] = s"
| "join sep (s # t # ss) = s @ sep @ join sep (t # ss)"

text \<open>
  ToString, which \<^verbatim>\<open>encodeURI\<close> applies to its argument first. A string is
  itself. An object is converted by its \<^verbatim>\<open>toString\<close> method: the inherited one
  gives \<^verbatim>\<open>[object Object]\<close>, but Express parses the query string with
  \<^verbatim>\<open>allowPrototypes\<close>, so \<^verbatim>\<open>q[toString]=x\<close> gives an object whose own
  \<^verbatim>\<open>toString\<close> is a string, an array or an object, never a function. The conversion
  then turns to \<^verbatim>\<open>valueOf\<close>, which is either an own property that is no function
  or the inherited one that returns the object, and throws a TypeError. An array is its
  elements converted from left to right and joined by commas; the first element that
  throws ends the conversion.
\<close>

fun sequence :: "(js_error + 'a) list \<Rightarrow> js_error + 'a list" where
  "sequence [] = Inr []"
| "sequence (r # rs) =
     (case r of
        Inl e \<Rightarrow> Inl e
      | Inr x \<Rightarrow> (case sequence rs of Inl e \<Rightarrow> Inl e | Inr xs \<Rightarrow> Inr (x # xs)))"

fun ToString :: "qval \<Rightarrow> js_error + jsstring" where
  "ToString (QStr s) = Inr s"
| "ToString (QArr xs) =
     (case sequence (map ToString xs) of
        Inl e \<Rightarrow> Inl e
      | Inr ss \<Rightarrow> Inr (join (js '','') ss))"
| "ToString (QObj kvs) =
     (if map_of kvs (js ''toString'') = None then Inr (js ''[object Object]'')
      else Inl TypeError)"

fun ToString_param :: "qval option \<Rightarrow> js_error + jsstring" where
  "ToString_param None = Inr (js ''undefined'')"
| "ToString_param (Some v) = ToString v"

section \<open>encodeURI\<close>

text \<open>
  ECMAScript's \<^verbatim>\<open>encodeURI(v)\<close> converts \<open>v\<close> to a string \<open>s\<close>, which may
  throw, and is then \<^verbatim>\<open>Encode(s, unescapedURISet)\<close>: a code unit of
  the unescaped set is copied; any other is read as a code point (a surrogate pair is one
  code point, an unpaired surrogate throws URIError), written in UTF-8, and every octet
  becomes \<^verbatim>\<open>%XX\<close> in upper-case hexadecimal.
\<close>

definition uriReserved :: jsstring where
  "uriReserved = js '';/?:@&=+$,''"

definition uriAlpha :: jsstring where
  "uriAlpha = js ''abcdefghijklmnopqrstuvwxyzABCDEFGHIJKLMNOPQRSTUVWXYZ''"

definition DecimalDigit :: jsstring where
  "DecimalDigit = js ''0123456789''"

definition uriMark :: jsstring where
  "uriMark = js ''-_.!~*'()''"

definition unescapedURISet :: "16 word \<Rightarrow> bool" where
  "unescapedURISet c = (c \<in> set (uriReserved @ uriAlpha @ DecimalDigit @ uriMark @ js ''#''))"

definition is_lead :: "16 word \<Rightarrow> bool" where
  "is_lead c = (0xD800 \<le> c \<and> c \<le> 0xDBFF)"

definition is_trail :: "16 word \<Rightarrow> bool" where
  "is_trail c = (0xDC00 \<le> c \<and> c \<le> 0xDFFF)"

definition utf8 :: "nat \<Rightarrow> nat list" where
  "utf8 cp =
     (if cp < 0x80 then [cp]
      else if cp < 0x800 then [0xC0 + cp div 64, 0x80 + cp mod 64]
      else if cp < 0x10000 then
        [0xE0 + cp div 4096, 0x80 + (cp div 64) mod 64, 0x80 + cp mod 64]
      else
        [0xF0 + cp div 262144, 0x80 + (cp div 4096) mod 64,
         0x80 + (cp div 64) mod 64, 0x80 + cp mod 64])"

definition hexdigit :: "nat \<Rightarrow> 16 word" where
  "hexdigit n = js ''0123456789ABCDEF'' ! n"

definition pct :: "nat \<Rightarrow> jsstring" where
  "pct b = js ''%'' @ [hexdigit (b div 16), hexdigit (b mod 16)]"

definition escape :: "nat \<Rightarrow> jsstring" where
  "escape cp = concat (map pct (utf8 cp))"

definition prepend :: "jsstring \<Rightarrow> js_error + jsstring \<Rightarrow> js_error + jsstring" where
  "prepend p r = (case r of Inl e \<Rightarrow> Inl e | Inr s \<Rightarrow> Inr (p @ s))"

fun Encode :: "(16 word \<Rightarrow> bool) \<Rightarrow> jsstring \<Rightarrow> js_error + jsstring" where
  "Encode U [] = Inr []"
| "Encode U [c] =
     (if U c then Inr [c]
      else if is_lead c \<or> is_trail c then Inl URIError
      else Inr (escape (unat c)))"
| "Encode U (c # d # cs) =
     (if U c then prepend [c] (Encode U (d # cs))
      else if is_trail c then Inl URIError
      else if is_lead c then
        (if is_trail d
         then prepend (escape ((unat c - 0xD800) * 0x400 + (unat d - 0xDC00) + 0x10000))
                (Encode U cs)
         else Inl URIError)
      else prepend (escape (unat c)) (Encode U (d # cs)))"

definition encodeURI :: "qval option \<Rightarrow> js_error + jsstring" where
  "encodeURI v =
     (case ToString_param v of
        Inl e \<Rightarrow> Inl e
      | Inr s \<Rightarrow> Encode unescapedURISet s)"

section \<open>Sessions, requests, responses and the upstream services\<close>

text \<open>
  The session object of express-session. The handlers use one property of it,
  \<^verbatim>\<open>sfdcAuth\<close>; a property that was never set reads as undefined.
\<close>

record session =
  sid :: jsstring
  sfdcAuth :: jsval

text \<open>The request: its session and its parsed query string.\<close>

record request =
  session :: session
  query :: "(jsstring \<times> qval) list"

text \<open>
  What a handler does with Express's response object.
  \<^verbatim>\<open>response.status(n).send(v)\<close> is \<open>Respond n (Send v)\<close>,
  \<^verbatim>\<open>response.status(n).json(v)\<close> is \<open>Respond n (Json v)\<close>, \<^verbatim>\<open>response.send(v)\<close>
  leaves the status at Express's default 200, and \<^verbatim>\<open>response.redirect(url)\<close>
  answers with Express's default redirect status 302.
\<close>

datatype body = Send jsval | Json jsval

datatype response = Respond nat body | Redirect jsstring

fun status_code :: "response \<Rightarrow> nat" where
  "status_code (Respond n b) = n"
| "status_code (Redirect url) = 302"

text \<open>
  The services the handlers call: the Salesforce client \<^verbatim>\<open>sfdc\<close>
  (salesforce-node-client), the HTTP client \<^verbatim>\<open>httpClient\<close> (request) and the session
  store behind \<^verbatim>\<open>session.destroy\<close>. They are third-party libraries, so they are
  parameters of the model. A call that takes a callback is a function to the arguments
  the callback receives, on the assumption that the library calls it once:
  \<open>authenticate\<close>, \<open>getLoggedUser\<close> and \<open>httpGet\<close> give \<open>(error, payload)\<close>,
  \<open>revoke\<close> and \<open>destroy\<close> give the error. \<open>getAuthorizationUrl\<close> and
  \<open>createDataRequest\<close> only build a value and send nothing.
  \<^verbatim>\<open>session.destroy\<close> of express-session removes the session from the request and
  asks the store to delete it; \<open>destroy\<close> is the error the store reports to the callback.
\<close>

record services =
  getAuthorizationUrl :: "jsstring \<Rightarrow> jsstring"
  authenticate :: "qval option \<Rightarrow> jsval \<times> jsval"
  revoke :: "jsval \<Rightarrow> jsval"
  getLoggedUser :: "jsval \<Rightarrow> jsval \<times> jsval"
  createDataRequest :: "jsval \<Rightarrow> jsstring \<Rightarrow> jsval"
  httpGet :: "jsval \<Rightarrow> jsval \<times> jsval"
  destroy :: "session \<Rightarrow> jsval"

text \<open>The outbound calls a handler makes, with their arguments, in order.\<close>

datatype upstream_call =
    Authenticate "qval option"
  | Revoke jsval
  | GetLoggedUser jsval
  | HttpGet jsval

text \<open>
  A console line: the text written is the prefix followed by
  \<^verbatim>\<open>JSON.stringify\<close> of the value.
\<close>

datatype log_line = ConsoleLog jsstring jsval | ConsoleError jsstring jsval

text \<open>
  What handling one request leaves behind: the response sent (\<open>None\<close> when the
  handler threw before it answered), the session (\<open>None\<close> once
  \<^verbatim>\<open>session.destroy\<close> has been called on it), the outbound calls, the console lines and
  the exception thrown, if any.
\<close>

record outcome =
  response :: "response option"
  session_after :: "session option"
  calls :: "upstream_call list"
  console :: "log_line list"
  thrown :: "js_error option"

definition idle :: "session \<Rightarrow> outcome" where
  "idle s = \<lparr>response = None, session_after = Some s, calls = [], console = [], thrown = None\<rparr>"

definition credential_after :: "outcome \<Rightarrow> jsval" where
  "credential_after out = (case session_after out of None \<Rightarrow> JUndefined | Some s \<Rightarrow> sfdcAuth s)"

section \<open>The handlers\<close>

text \<open>
  \<^verbatim>\<open>getSession(request, response)\<close>: answers 401 and returns null (\<open>Inl\<close>, with the
  response sent) when \<^verbatim>\<open>typeof session['sfdcAuth'] === 'undefined'\<close>, and returns the
  session otherwise.
\<close>

definition getSession :: "request \<Rightarrow> response + session" where
  "getSession rq =
     (if sfdcAuth (session rq) = JUndefined
      then Inl (Respond 401 (Send (JStr (js ''No active session''))))
      else Inr (session rq))"

text \<open>\<^verbatim>\<open>app.get("/auth/login")\<close>\<close>

definition login_handler :: "services \<Rightarrow> request \<Rightarrow> outcome" where
  "login_handler env rq =
     (idle (session rq))\<lparr>response := Some (Redirect (getAuthorizationUrl env (js ''api'')))\<rparr>"

text \<open>\<^verbatim>\<open>app.get('/auth/callback')\<close>\<close>

definition callback_handler :: "services \<Rightarrow> request \<Rightarrow> outcome" where
  "callback_handler env rq =
     (let code = map_of (query rq) (js ''code'') in
      if falsy_param code then
        (idle (session rq))
          \<lparr>response := Some (Respond 500
             (Send (JStr (js ''Failed to get authorization code from server callback.''))))\<rparr>
      else
        (case authenticate env code of (error, payload) \<Rightarrow>
           if truthy error then
             (idle (session rq))
               \<lparr>response := Some (Respond 500 (Json error)),
                calls := [Authenticate code],
                console := [ConsoleLog (js ''Force.com authentication error: '') error]\<rparr>
           else
             (idle (session rq))
               \<lparr>response := Some (Redirect (js ''/index.html'')),
                session_after := Some ((session rq)\<lparr>sfdcAuth := payload\<rparr>),
                calls := [Authenticate code]\<rparr>))"

text \<open>\<^verbatim>\<open>app.get('/auth/logout')\<close>\<close>

definition logout_handler :: "services \<Rightarrow> request \<Rightarrow> outcome" where
  "logout_handler env rq =
     (case getSession rq of
        Inl r \<Rightarrow> (idle (session rq))\<lparr>response := Some r\<rparr>
      | Inr s \<Rightarrow>
         (case get_prop (sfdcAuth s) (js ''access_token'') of
            Inl e \<Rightarrow> (idle s)\<lparr>thrown := Some e\<rparr>
          | Inr token \<Rightarrow>
             (let error = revoke env token in
              if truthy error then
                (idle s)
                  \<lparr>response := Some (Respond 500 (Json error)),
                   calls := [Revoke token],
                   console := [ConsoleError (js ''Force.com OAuth revoke error: '') error]\<rparr>
              else
                (let error = destroy env s in
                 (idle s)
                   \<lparr>response := Some (Redirect (js ''/index.html'')),
                    session_after := None,
                    calls := [Revoke token],
                    console :=
                      (if truthy error
                       then [ConsoleError (js ''Force.com session destruction error: '') error]
                       else [])\<rparr>))))"

text \<open>\<^verbatim>\<open>app.get('/auth/whoami')\<close>\<close>

definition whoami_handler :: "services \<Rightarrow> request \<Rightarrow> outcome" where
  "whoami_handler env rq =
     (case getSession rq of
        Inl r \<Rightarrow> (idle (session rq))\<lparr>response := Some r\<rparr>
      | Inr s \<Rightarrow>
         (case getLoggedUser env (sfdcAuth s) of (error, userData) \<Rightarrow>
            if truthy error then
              (idle s)
                \<lparr>response := Some (Respond 500 (Json error)),
                 calls := [GetLoggedUser (sfdcAuth s)],
                 console := [ConsoleLog (js ''Force.com identity API error: '') error]\<rparr>
            else
              (idle s)
                \<lparr>response := Some (Respond 200 (Send userData)),
                 calls := [GetLoggedUser (sfdcAuth s)]\<rparr>))"

text \<open>\<^verbatim>\<open>app.get('/query')\<close>\<close>

definition query_handler :: "services \<Rightarrow> request \<Rightarrow> outcome" where
  "query_handler env rq =
     (case getSession rq of
        Inl r \<Rightarrow> (idle (session rq))\<lparr>response := Some r\<rparr>
      | Inr s \<Rightarrow>
         (let q = map_of (query rq) (js ''q'') in
          if falsy_param q then
            (idle s)\<lparr>response := Some (Respond 400 (Send (JStr (js ''Missing query parameter.''))))\<rparr>
          else
            (case encodeURI q of
               Inl e \<Rightarrow> (idle s)\<lparr>thrown := Some e\<rparr>
             | Inr query' \<Rightarrow>
                (let apiRequestOptions = createDataRequest env (sfdcAuth s) (js ''query?q='' @ query')
                 in case httpGet env apiRequestOptions of (error, payload) \<Rightarrow>
                   if truthy error then
                     (idle s)
                       \<lparr>response := Some (Respond 500 (Json error)),
                        calls := [HttpGet apiRequestOptions],
                        console := [ConsoleError (js ''Force.com data API error: '') error]\<rparr>
                   else
                     (case get_prop payload (js ''body'') of
                        Inl e \<Rightarrow> (idle s)\<lparr>calls := [HttpGet apiRequestOptions], thrown := Some e\<rparr>
                      | Inr b \<Rightarrow>
                         (idle s)
                           \<lparr>response := Some (Respond 200 (Send b)),
                            calls := [HttpGet apiRequestOptions]\<rparr>)))))"

section \<open>The percent-encoded form of the specification\<close>

text \<open>
  The specification asks that the query string be forwarded in percent-encoded form, every
  character that requires escaping being escaped, so that the upstream service reads the
  caller's string back as the parameter \<^verbatim>\<open>q\<close>. Inside a query parameter the
  delimiters of the URI syntax are such characters. \<open>spec_percent_encode\<close> follows
  these words (it is ECMAScript's \<^verbatim>\<open>encodeURIComponent\<close>): only letters, digits
  and marks are copied. It is not part of the server; \<open>encodeURI\<close> above is what the
  server calls.
\<close>

definition spec_unescaped :: "16 word \<Rightarrow> bool" where
  "spec_unescaped c = (c \<in> set (uriAlpha @ DecimalDigit @ uriMark))"

definition spec_percent_encode :: "jsstring \<Rightarrow> js_error + jsstring" where
  "spec_percent_encode s = Encode spec_unescaped s"

section \<open>Concrete services and requests\<close>

definition example_credential :: jsval where
  "example_credential =
     JObj [(js ''access_token'', JStr (js ''T1'')),
           (js ''instance_url'', JStr (js ''https://eu1.example.com''))]"

definition example_error :: jsval where
  "example_error = JObj [(js ''error'', JStr (js ''invalid_grant''))]"

definition example_response :: jsval where
  "example_response =
     JObj [(js ''statusCode'', JNum 0x4069000000000000),
           (js ''body'', JStr (js ''{totalSize:0,done:true,records:[]}''))]"

text \<open>
  An error response of the upstream data API: status 400 (the number 400 as a binary64)
  and the error of the API as its body.
\<close>

definition rejected_response :: jsval where
  "rejected_response =
     JObj [(js ''statusCode'', JNum 0x4079000000000000),
           (js ''body'', JStr (js ''[{message:unexpected token,errorCode:MALFORMED_QUERY}]''))]"

text \<open>Services that all succeed.\<close>

definition example_services :: services where
  "example_services =
     \<lparr>getAuthorizationUrl = (\<lambda>scope. js ''https://login.example.com/authorize?scope='' @ scope),
      authenticate = (\<lambda>code. (JNull, example_credential)),
      revoke = (\<lambda>token. JUndefined),
      getLoggedUser = (\<lambda>cred. (JNull, JObj [(js ''user_id'', JStr (js ''005''))])),
      createDataRequest = (\<lambda>cred resource. JObj [(js ''url'', JStr resource), (js ''auth'', cred)]),
      httpGet = (\<lambda>options. (JNull, example_response)),
      destroy = (\<lambda>s. JUndefined)\<rparr>"

text \<open>Services that all fail.\<close>

definition failing_services :: services where
  "failing_services =
     \<lparr>getAuthorizationUrl = (\<lambda>scope. js ''https://login.example.com/authorize?scope='' @ scope),
      authenticate = (\<lambda>code. (example_error, JUndefined)),
      revoke = (\<lambda>token. example_error),
      getLoggedUser = (\<lambda>cred. (example_error, JUndefined)),
      createDataRequest = (\<lambda>cred resource. JObj [(js ''url'', JStr resource), (js ''auth'', cred)]),
      httpGet = (\<lambda>options. (example_error, JUndefined)),
      destroy = (\<lambda>s. example_error)\<rparr>"

text \<open>Services whose data API rejects the query: the GET completes with an error response.\<close>

definition rejecting_services :: services where
  "rejecting_services =
     \<lparr>getAuthorizationUrl = (\<lambda>scope. js ''https://login.example.com/authorize?scope='' @ scope),
      authenticate = (\<lambda>code. (JNull, example_credential)),
      revoke = (\<lambda>token. JUndefined),
      getLoggedUser = (\<lambda>cred. (JNull, JObj [(js ''user_id'', JStr (js ''005''))])),
      createDataRequest = (\<lambda>cred resource. JObj [(js ''url'', JStr resource), (js ''auth'', cred)]),
      httpGet = (\<lambda>options. (JNull, rejected_response)),
      destroy = (\<lambda>s. JUndefined)\<rparr>"

definition anonymous_session :: session where
  "anonymous_session = \<lparr>sid = js ''s0'', sfdcAuth = JUndefined\<rparr>"

definition authenticated_session :: session where
  "authenticated_session = \<lparr>sid = js ''s1'', sfdcAuth = example_credential\<rparr>"

definition anonymous_request :: request where
  "anonymous_request = \<lparr>session = anonymous_session, query = []\<rparr>"

definition authenticated_request :: request where
  "authenticated_request = \<lparr>session = authenticated_session, query = []\<rparr>"

definition callback_request :: request where
  "callback_request = \<lparr>session = anonymous_session, query = [(js ''code'', QStr (js ''aPrx''))]\<rparr>"

definition select_request :: request where
  "select_request =
     \<lparr>session = authenticated_session, query = [(js ''q'', QStr (js ''SELECT Id FROM X''))]\<rparr>"

definition empty_q_request :: request where
  "empty_q_request = \<lparr>session = authenticated_session, query = [(js ''q'', QStr [])]\<rparr>"

text \<open>\<^verbatim>\<open>GET /query?q[toString]=x\<close>\<close>

definition toString_request :: request where
  "toString_request =
     \<lparr>session = authenticated_session,
      query = [(js ''q'', QObj [(js ''toString'', QStr (js ''x''))])]\<rparr>"

definition ampersand_query :: jsstring where
  "ampersand_query = js ''SELECT Id FROM Account WHERE Name = 'AT&T' LIMIT 1''"

definition ampersand_request :: request where
  "ampersand_request =
     \<lparr>session = authenticated_session, query = [(js ''q'', QStr ampersand_query)]\<rparr>"

section \<open>Evaluation rules\<close>

lemmas handler_defs =
  login_handler_def callback_handler_def logout_handler_def whoami_handler_def
  query_handler_def getSession_def idle_def credential_after_def Let_def

lemmas example_defs =
  example_services_def failing_services_def rejecting_services_def example_credential_def
  example_error_def example_response_def rejected_response_def toString_request_def anonymous_session_def authenticated_session_def
  anonymous_request_def authenticated_request_def callback_request_def select_request_def
  empty_q_request_def ampersand_request_def ampersand_query_def

lemmas uri_defs =
  encodeURI_def spec_percent_encode_def spec_unescaped_def unescapedURISet_def
  uriReserved_def uriAlpha_def DecimalDigit_def uriMark_def prepend_def escape_def
  utf8_def pct_def hexdigit_def is_lead_def is_trail_def js_def

section \<open>Where \<open>encodeURI\<close> gives the percent-encoded form\<close>

text \<open>
  \<open>Encode\<close> looks at its set of unescaped characters only on the characters of the
  string. So \<open>encodeURI\<close> gives the percent-encoded form of every string that has none
  of the delimiters \<^verbatim>\<open>; / ? : @ & = + $ , #\<close>.
\<close>

lemma Encode_agree:
  "(\<And>c. c \<in> set s \<Longrightarrow> U c = V c) \<Longrightarrow> Encode U s = Encode V s"
proof (induction U s rule: Encode.induct)
  case (1 U)
  show ?case by simp
next
  case (2 U c)
  then show ?case by simp
next
  case (3 U c d cs)
  have c: "U c = V c" and d: "U d = V d"
    using "3.prems" by simp_all
  have rest: "\<And>x. x \<in> set cs \<Longrightarrow> U x = V x"
    using "3.prems" by simp
  show ?case
  proof (cases "U c")
    case True
    with c "3.IH"(1) "3.prems" show ?thesis by simp
  next
    case False
    note nU = this
    show ?thesis
    proof (cases "is_trail c")
      case True
      with nU c show ?thesis by simp
    next
      case False
      note nT = this
      show ?thesis
      proof (cases "is_lead c")
        case True
        show ?thesis
        proof (cases "is_trail d")
          case True
          with nU nT \<open>is_lead c\<close> c "3.IH"(2) rest show ?thesis by simp
        next
          case False
          with nU nT \<open>is_lead c\<close> c show ?thesis by simp
        qed
      next
        case False
        with nU nT c "3.IH"(3) "3.prems" show ?thesis by simp
      qed
    qed
  qed
qed


lemma unescaped_split:
  "unescapedURISet c = (spec_unescaped c \<or> c \<in> set (uriReserved @ js ''#''))"
  unfolding unescapedURISet_def spec_unescaped_def set_append Un_iff by blast

lemma encodeURI_meets_spec:
  assumes "set s \<inter> set (uriReserved @ js ''#'') = {}"
  shows "encodeURI (Some (QStr s)) = spec_percent_encode s"
proof -
  have "unescapedURISet c = spec_unescaped c" if "c \<in> set s" for c
  proof -
    from that assms have "c \<notin> set (uriReserved @ js ''#'')"
      by blast
    then show ?thesis
      unfolding unescaped_split by simp
  qed
  then have "Encode unescapedURISet s = Encode spec_unescaped s"
    by (rule Encode_agree)
  then show ?thesis
    by (simp add: encodeURI_def spec_percent_encode_def)
qed

text \<open>
  A \<^verbatim>\<open>q\<close> that is an object with a \<^verbatim>\<open>toString\<close> of its own makes
  \<open>encodeURI\<close> throw: the handler ends there, with no response and no outbound call.
\<close>

lemma query_toString_throws:
  "thrown (query_handler example_services toString_request) = Some TypeError
 \<and> response (query_handler example_services toString_request) = None
 \<and> calls (query_handler example_services toString_request) = []"
  by (simp add: handler_defs example_defs encodeURI_def js_def)

lemma encodeURI_select_example:
  "encodeURI (Some (QStr (js ''SELECT Id FROM X''))) = spec_percent_encode (js ''SELECT Id FROM X'')"
  by (simp add: uri_defs)

section \<open>Logout\<close>

text \<open>
  C1, as claimed: every logout request on a session that holds a credential is answered
  with a 302 redirect to \<^verbatim>\<open>/index.html\<close> and leaves the session without a
  credential, even when the revocation call fails.

  The handler does otherwise when the revocation fails: it answers 500 with the error and
  returns before \<^verbatim>\<open>session.destroy\<close>, so the credential stays. The request below
  has a credential, and the revocation fails.
\<close>

theorem logout_revoke_failure_counterexample:
  "sfdcAuth (session authenticated_request) \<noteq> JUndefined
 \<and> response (logout_handler failing_services authenticated_request)
      = Some (Respond 500 (Json example_error))
 \<and> response (logout_handler failing_services authenticated_request)
      \<noteq> Some (Redirect (js ''/index.html''))
 \<and> credential_after (logout_handler failing_services authenticated_request)
      = example_credential
 \<and> credential_after (logout_handler failing_services authenticated_request) \<noteq> JUndefined"
  by (simp add: handler_defs example_defs js_def)

text \<open>
  C1, amended: for a logout request on a session whose credential is present and not
  null, the access token of the credential is sent to the revocation call. When the
  revocation succeeds, the session is destroyed, so that it holds no credential, and the
  response is a 302 redirect to \<^verbatim>\<open>/index.html\<close>, whatever the destruction of the
  session reports. When the revocation fails, the response is 500 with the error of the
  revocation and the session is left as it was.
\<close>

theorem logout_outcome:
  assumes "sfdcAuth (session rq) \<noteq> JUndefined"
    and "get_prop (sfdcAuth (session rq)) (js ''access_token'') = Inr token"
  shows "calls (logout_handler env rq) = [Revoke token]
       \<and> response (logout_handler env rq) =
           Some (if truthy (revoke env token) then Respond 500 (Json (revoke env token))
                 else Redirect (js ''/index.html''))
       \<and> session_after (logout_handler env rq) =
           (if truthy (revoke env token) then Some (session rq) else None)
       \<and> credential_after (logout_handler env rq) =
           (if truthy (revoke env token) then sfdcAuth (session rq) else JUndefined)"
  using assms by (simp add: handler_defs)

theorem logout_outcome_witness:
  "sfdcAuth (session authenticated_request) \<noteq> JUndefined
 \<and> get_prop (sfdcAuth (session authenticated_request)) (js ''access_token'') = Inr (JStr (js ''T1''))
 \<and> response (logout_handler example_services authenticated_request)
      = Some (Redirect (js ''/index.html''))
 \<and> status_code (Redirect (js ''/index.html'')) = 302
 \<and> session_after (logout_handler example_services authenticated_request) = None
 \<and> credential_after (logout_handler example_services authenticated_request) = JUndefined
 \<and> response (logout_handler failing_services authenticated_request)
      = Some (Respond 500 (Json example_error))
 \<and> session_after (logout_handler failing_services authenticated_request)
      = Some authenticated_session"
proof -
  have h1: "sfdcAuth (session authenticated_request) \<noteq> JUndefined"
    by (simp add: example_defs)
  have h2: "get_prop (sfdcAuth (session authenticated_request)) (js ''access_token'')
              = Inr (JStr (js ''T1''))"
    by (simp add: example_defs js_def)
  have ok: "\<not> truthy (revoke example_services (JStr (js ''T1'')))"
    by (simp add: example_defs)
  have ko: "truthy (revoke failing_services (JStr (js ''T1'')))"
    by (simp add: example_defs)
  have s: "session authenticated_request = authenticated_session"
    by (simp add: example_defs)
  have e: "revoke failing_services (JStr (js ''T1'')) = example_error"
    by (simp add: example_defs)
  show ?thesis
    using h1 h2 ok ko s e
      logout_outcome [OF h1 h2, of example_services]
      logout_outcome [OF h1 h2, of failing_services]
    by simp
qed

section \<open>The guard of the protected endpoints\<close>

text \<open>
  C2: a request to \<^verbatim>\<open>/auth/whoami\<close>, \<^verbatim>\<open>/query\<close> or \<^verbatim>\<open>/auth/logout\<close> whose
  session has no credential is answered with 401 and the message
  \<^verbatim>\<open>No active session\<close>, and no outbound call is made.
\<close>

theorem protected_endpoints_unauthenticated:
  assumes "sfdcAuth (session rq) = JUndefined"
  shows "response (whoami_handler env rq)
           = Some (Respond 401 (Send (JStr (js ''No active session''))))
       \<and> calls (whoami_handler env rq) = []
       \<and> response (query_handler env rq)
           = Some (Respond 401 (Send (JStr (js ''No active session''))))
       \<and> calls (query_handler env rq) = []
       \<and> response (logout_handler env rq)
           = Some (Respond 401 (Send (JStr (js ''No active session''))))
       \<and> calls (logout_handler env rq) = []"
  using assms by (simp add: handler_defs)

theorem protected_endpoints_unauthenticated_witness:
  "sfdcAuth (session anonymous_request) = JUndefined
 \<and> response (whoami_handler example_services anonymous_request)
      = Some (Respond 401 (Send (JStr (js ''No active session''))))
 \<and> calls (whoami_handler example_services anonymous_request) = []
 \<and> response (query_handler example_services anonymous_request)
      = Some (Respond 401 (Send (JStr (js ''No active session''))))
 \<and> calls (query_handler example_services anonymous_request) = []
 \<and> response (logout_handler example_services anonymous_request)
      = Some (Respond 401 (Send (JStr (js ''No active session''))))
 \<and> calls (logout_handler example_services anonymous_request) = []"
proof -
  have h: "sfdcAuth (session anonymous_request) = JUndefined"
    by (simp add: example_defs)
  show ?thesis
    using h protected_endpoints_unauthenticated [OF h, of example_services] by simp
qed

section \<open>The query proxy\<close>

text \<open>
  C3, as claimed: for a query request on a session with a credential and a non-empty
  \<^verbatim>\<open>q\<close>, a failure of the upstream call gives 500 with the upstream error payload,
  and a success gives the upstream body as it is.

  The handler tests the error argument of the callback only, and never reads the status
  of the upstream response. When the data API rejects the query, the GET completes
  without an error argument and delivers a response with status 400 and the error of the
  API as its body: the handler sends that body with status 200, not 500.
\<close>

theorem query_upstream_error_response_counterexample:
  "sfdcAuth (session select_request) \<noteq> JUndefined
 \<and> \<not> falsy_param (map_of (query select_request) (js ''q''))
 \<and> httpGet rejecting_services
      (createDataRequest rejecting_services (sfdcAuth (session select_request))
         (js ''query?q=SELECT%20Id%20FROM%20X''))
      = (JNull, rejected_response)
 \<and> get_prop rejected_response (js ''statusCode'') = Inr (JNum 0x4079000000000000)
 \<and> calls (query_handler rejecting_services select_request)
      = [HttpGet (createDataRequest rejecting_services (sfdcAuth (session select_request))
           (js ''query?q=SELECT%20Id%20FROM%20X''))]
 \<and> response (query_handler rejecting_services select_request)
      = Some (Respond 200
          (Send (JStr (js ''[{message:unexpected token,errorCode:MALFORMED_QUERY}]''))))
 \<and> response (query_handler rejecting_services select_request)
      \<noteq> Some (Respond 500 (Json rejected_response))
 \<and> status_code (Respond 200
      (Send (JStr (js ''[{message:unexpected token,errorCode:MALFORMED_QUERY}]'')))) \<noteq> 500"
  by (simp add: handler_defs example_defs uri_defs)

text \<open>
  C3, amended: for a query request on a session with a credential and a non-empty
  \<^verbatim>\<open>q\<close> that \<^verbatim>\<open>encodeURI\<close> converts, the handler sends one GET, with the
  options built from the credential and the encoded query. When the GET reports an error
  to the callback (a transport failure), the response is 500 with that error as its JSON
  body. When it reports none and delivers a response object, the body of that object is
  sent as it is, with the default status 200, whatever the status of the upstream
  response.
\<close>

theorem query_upstream_result:
  assumes "sfdcAuth (session rq) \<noteq> JUndefined"
    and "\<not> falsy_param (map_of (query rq) (js ''q''))"
    and "encodeURI (map_of (query rq) (js ''q'')) = Inr e"
    and "httpGet env (createDataRequest env (sfdcAuth (session rq)) (js ''query?q='' @ e))
           = (err, payload)"
  shows "calls (query_handler env rq)
           = [HttpGet (createDataRequest env (sfdcAuth (session rq)) (js ''query?q='' @ e))]
       \<and> (truthy err \<longrightarrow>
            response (query_handler env rq) = Some (Respond 500 (Json err)))
       \<and> (\<not> truthy err \<longrightarrow> (\<forall>b. get_prop payload (js ''body'') = Inr b \<longrightarrow>
            response (query_handler env rq) = Some (Respond 200 (Send b))))"
  using assms by (simp add: handler_defs split: sum.splits)

theorem query_upstream_result_witness:
  "sfdcAuth (session select_request) \<noteq> JUndefined
 \<and> \<not> falsy_param (map_of (query select_request) (js ''q''))
 \<and> encodeURI (map_of (query select_request) (js ''q'')) = Inr (js ''SELECT%20Id%20FROM%20X'')
 \<and> truthy example_error
 \<and> response (query_handler failing_services select_request)
      = Some (Respond 500 (Json example_error))
 \<and> \<not> truthy JNull
 \<and> get_prop example_response (js ''body'') = Inr (JStr (js ''{totalSize:0,done:true,records:[]}''))
 \<and> response (query_handler example_services select_request)
      = Some (Respond 200 (Send (JStr (js ''{totalSize:0,done:true,records:[]}''))))"
proof -
  have h1: "sfdcAuth (session select_request) \<noteq> JUndefined"
    by (simp add: example_defs)
  have h2: "\<not> falsy_param (map_of (query select_request) (js ''q''))"
    by (simp add: example_defs js_def)
  have h3: "encodeURI (map_of (query select_request) (js ''q''))
              = Inr (js ''SELECT%20Id%20FROM%20X'')"
    by (simp add: example_defs uri_defs)
  have ko: "httpGet failing_services
              (createDataRequest failing_services (sfdcAuth (session select_request))
                 (js ''query?q='' @ js ''SELECT%20Id%20FROM%20X''))
              = (example_error, JUndefined)"
    by (simp add: example_defs)
  have ok: "httpGet example_services
              (createDataRequest example_services (sfdcAuth (session select_request))
                 (js ''query?q='' @ js ''SELECT%20Id%20FROM%20X''))
              = (JNull, example_response)"
    by (simp add: example_defs)
  have t: "truthy example_error"
    by (simp add: example_defs)
  have b: "get_prop example_response (js ''body'')
             = Inr (JStr (js ''{totalSize:0,done:true,records:[]}''))"
    by (simp add: example_defs js_def)
  show ?thesis
    using h1 h2 h3 t b
      query_upstream_result [OF h1 h2 h3 ko]
      query_upstream_result [OF h1 h2 h3 ok]
    by simp
qed

text \<open>
  C5: the query string is forwarded in percent-encoded form, every character that
  requires escaping being escaped. The server calls \<^verbatim>\<open>encodeURI\<close>, which copies the
  delimiters \<^verbatim>\<open>; / ? : @ & = + $ , #\<close>. For the query string
  \<^verbatim>\<open>SELECT Id FROM Account WHERE Name = 'AT&T' LIMIT 1\<close> the forwarded resource has the
  \<^verbatim>\<open>&\<close> and the \<^verbatim>\<open>=\<close> of the string as they are, where the percent-encoded
  form has \<^verbatim>\<open>%26\<close> and \<^verbatim>\<open>%3D\<close>: the parameter \<^verbatim>\<open>q\<close> ends at the
  \<^verbatim>\<open>&\<close>.
\<close>

theorem query_forwards_ampersand_unescaped:
  "calls (query_handler example_services ampersand_request) =
     [HttpGet (createDataRequest example_services example_credential
        (js ''query?q=SELECT%20Id%20FROM%20Account%20WHERE%20Name%20=%20'AT&T'%20LIMIT%201''))]
 \<and> spec_percent_encode ampersand_query =
     Inr (js ''SELECT%20Id%20FROM%20Account%20WHERE%20Name%20%3D%20'AT%26T'%20LIMIT%201'')"
  by (simp add: handler_defs example_defs uri_defs)

text \<open>
  C7: a query request on a session with a credential whose \<^verbatim>\<open>q\<close> is absent or the
  empty string is answered with 400 and the message \<^verbatim>\<open>Missing query parameter.\<close>, and
  no outbound call is made.
\<close>

theorem query_missing_parameter:
  assumes "sfdcAuth (session rq) \<noteq> JUndefined"
    and "map_of (query rq) (js ''q'') = None \<or> map_of (query rq) (js ''q'') = Some (QStr [])"
  shows "response (query_handler env rq)
           = Some (Respond 400 (Send (JStr (js ''Missing query parameter.''))))
       \<and> calls (query_handler env rq) = []"
  using assms by (auto simp add: handler_defs)

theorem query_missing_parameter_witness:
  "sfdcAuth (session authenticated_request) \<noteq> JUndefined
 \<and> map_of (query authenticated_request) (js ''q'') = None
 \<and> response (query_handler example_services authenticated_request)
      = Some (Respond 400 (Send (JStr (js ''Missing query parameter.''))))
 \<and> calls (query_handler example_services authenticated_request) = []
 \<and> sfdcAuth (session empty_q_request) \<noteq> JUndefined
 \<and> map_of (query empty_q_request) (js ''q'') = Some (QStr [])
 \<and> response (query_handler example_services empty_q_request)
      = Some (Respond 400 (Send (JStr (js ''Missing query parameter.''))))
 \<and> calls (query_handler example_services empty_q_request) = []"
proof -
  have a1: "sfdcAuth (session authenticated_request) \<noteq> JUndefined"
    by (simp add: example_defs)
  have a2: "map_of (query authenticated_request) (js ''q'') = None"
    by (simp add: example_defs)
  have b1: "sfdcAuth (session empty_q_request) \<noteq> JUndefined"
    by (simp add: example_defs)
  have b2: "map_of (query empty_q_request) (js ''q'') = Some (QStr [])"
    by (simp add: example_defs js_def)
  show ?thesis
    using a1 a2 b1 b2
      query_missing_parameter [OF a1 disjI1 [OF a2], of example_services]
      query_missing_parameter [OF b1 disjI2 [OF b2], of example_services]
    by simp
qed

text \<open>
  C10: in the query endpoint the check of the session comes first: a request with no
  credential and no \<^verbatim>\<open>q\<close> is answered with 401, not with 400.
\<close>

theorem query_authentication_first:
  assumes "sfdcAuth (session rq) = JUndefined"
    and "map_of (query rq) (js ''q'') = None"
  shows "response (query_handler env rq)
           = Some (Respond 401 (Send (JStr (js ''No active session''))))
       \<and> (\<forall>r. response (query_handler env rq) = Some r \<longrightarrow> status_code r = 401)"
  using assms by (simp add: handler_defs)

theorem query_authentication_first_witness:
  "sfdcAuth (session anonymous_request) = JUndefined
 \<and> map_of (query anonymous_request) (js ''q'') = None
 \<and> response (query_handler example_services anonymous_request)
      = Some (Respond 401 (Send (JStr (js ''No active session''))))
 \<and> status_code (Respond 401 (Send (JStr (js ''No active session'')))) = 401"
proof -
  have h1: "sfdcAuth (session anonymous_request) = JUndefined"
    by (simp add: example_defs)
  have h2: "map_of (query anonymous_request) (js ''q'') = None"
    by (simp add: example_defs)
  show ?thesis
    using h1 h2 query_authentication_first [OF h1 h2, of example_services] by simp
qed

section \<open>The callback\<close>

text \<open>
  C4: when the callback request carries a code and the exchange of the code succeeds with
  payload \<open>P\<close>, the credential of the session is \<open>P\<close> afterwards and the response is a
  302 redirect to \<^verbatim>\<open>/index.html\<close>. The handler starts the exchange for a code that is
  not the empty string.
\<close>

theorem callback_stores_credential:
  assumes "\<not> falsy_param (map_of (query rq) (js ''code''))"
    and "authenticate env (map_of (query rq) (js ''code'')) = (err, P)"
    and "\<not> truthy err"
  shows "calls (callback_handler env rq) = [Authenticate (map_of (query rq) (js ''code''))]
       \<and> credential_after (callback_handler env rq) = P
       \<and> session_after (callback_handler env rq) = Some ((session rq)\<lparr>sfdcAuth := P\<rparr>)
       \<and> response (callback_handler env rq) = Some (Redirect (js ''/index.html''))
       \<and> status_code (Redirect (js ''/index.html'')) = 302"
  using assms by (simp add: handler_defs)

theorem callback_stores_credential_witness:
  "\<not> falsy_param (map_of (query callback_request) (js ''code''))
 \<and> authenticate example_services (map_of (query callback_request) (js ''code''))
      = (JNull, example_credential)
 \<and> \<not> truthy JNull
 \<and> credential_after (callback_handler example_services callback_request) = example_credential
 \<and> response (callback_handler example_services callback_request)
      = Some (Redirect (js ''/index.html''))"
proof -
  have h1: "\<not> falsy_param (map_of (query callback_request) (js ''code''))"
    by (simp add: example_defs js_def)
  have h2: "authenticate example_services (map_of (query callback_request) (js ''code''))
              = (JNull, example_credential)"
    by (simp add: example_defs)
  have h3: "\<not> truthy JNull"
    by simp
  show ?thesis
    using h1 h2 callback_stores_credential [OF h1 h2 h3] by simp
qed

text \<open>
  C6: a callback request with no \<^verbatim>\<open>code\<close> parameter is answered with 500 and a
  diagnostic message, and no outbound call is made.
\<close>

theorem callback_missing_code:
  assumes "map_of (query rq) (js ''code'') = None"
  shows "response (callback_handler env rq)
           = Some (Respond 500
               (Send (JStr (js ''Failed to get authorization code from server callback.''))))
       \<and> calls (callback_handler env rq) = []"
  using assms by (simp add: handler_defs)

theorem callback_missing_code_witness:
  "map_of (query anonymous_request) (js ''code'') = None
 \<and> response (callback_handler example_services anonymous_request)
      = Some (Respond 500
          (Send (JStr (js ''Failed to get authorization code from server callback.''))))
 \<and> calls (callback_handler example_services anonymous_request) = []"
proof -
  have h: "map_of (query anonymous_request) (js ''code'') = None"
    by (simp add: example_defs)
  show ?thesis
    using h callback_missing_code [OF h, of example_services] by simp
qed

text \<open>
  C9: when the exchange of the code fails, the response is 500 with the error of the
  exchange and the session is left as it was: no credential is stored and a credential
  that was there stays.
\<close>

theorem callback_failure_keeps_session:
  assumes "\<not> falsy_param (map_of (query rq) (js ''code''))"
    and "authenticate env (map_of (query rq) (js ''code'')) = (err, P)"
    and "truthy err"
  shows "response (callback_handler env rq) = Some (Respond 500 (Json err))
       \<and> session_after (callback_handler env rq) = Some (session rq)
       \<and> credential_after (callback_handler env rq) = sfdcAuth (session rq)"
  using assms by (simp add: handler_defs)

theorem callback_failure_keeps_session_witness:
  "\<not> falsy_param (map_of (query callback_request) (js ''code''))
 \<and> authenticate failing_services (map_of (query callback_request) (js ''code''))
      = (example_error, JUndefined)
 \<and> truthy example_error
 \<and> response (callback_handler failing_services callback_request)
      = Some (Respond 500 (Json example_error))
 \<and> session_after (callback_handler failing_services callback_request)
      = Some (session callback_request)"
proof -
  have h1: "\<not> falsy_param (map_of (query callback_request) (js ''code''))"
    by (simp add: example_defs js_def)
  have h2: "authenticate failing_services (map_of (query callback_request) (js ''code''))
              = (example_error, JUndefined)"
    by (simp add: example_defs)
  have h3: "truthy example_error"
    by (simp add: example_defs)
  show ?thesis
    using h1 h2 h3 callback_failure_keeps_session [OF h1 h2 h3] by simp
qed

section \<open>The frame of the session\<close>

text \<open>
  C8: \<^verbatim>\<open>/auth/whoami\<close> and \<^verbatim>\<open>/query\<close> leave the session as it was, on every
  path, and so does \<^verbatim>\<open>/auth/login\<close>: the credential after the handler is the
  credential before it. The callback and the logout are the handlers that change it.
\<close>

theorem whoami_query_keep_credential:
  "session_after (whoami_handler env rq) = Some (session rq)
 \<and> credential_after (whoami_handler env rq) = sfdcAuth (session rq)
 \<and> session_after (query_handler env rq) = Some (session rq)
 \<and> credential_after (query_handler env rq) = sfdcAuth (session rq)
 \<and> session_after (login_handler env rq) = Some (session rq)
 \<and> credential_after (login_handler env rq) = sfdcAuth (session rq)"
  by (simp add: handler_defs split: sum.splits prod.splits)

theorem whoami_query_keep_credential_witness:
  "credential_after (whoami_handler example_services authenticated_request) = example_credential
 \<and> credential_after (query_handler example_services select_request) = example_credential
 \<and> credential_after (query_handler failing_services select_request) = example_credential"
  using whoami_query_keep_credential [of example_services authenticated_request]
    whoami_query_keep_credential [of example_services select_request]
    whoami_query_keep_credential [of failing_services select_request]
  by (simp add: example_defs)

end
